theory Spec2Isabelle
  imports Main "HOL-Library.FSet"
begin

section \<open>Change detector (app/monitor/diff.py)\<close>

text \<open>
  Python's \<open>set\<close> of strings is a finite set of strings. The dictionary returned by
  \<open>detect_changes\<close> holds \<open>list(s)\<close> of three sets: lists without duplicates whose
  order Python leaves open, kept here as the finite sets they enumerate, so that
  \<open>len\<close> of such a list is \<open>fcard\<close>. \<open>datetime.utcnow()\<close> is the argument \<open>now\<close>
  (microseconds since the epoch).
\<close>

record change_info =
  has_changes :: bool
  new_sectors :: "string fset"
  removed_sectors :: "string fset"
  unchanged_sectors :: "string fset"
  total_previous :: nat
  total_current :: nat
  timestamp :: int

definition detect_changes :: "int \<Rightarrow> string fset \<Rightarrow> string fset \<Rightarrow> change_info" where
  "detect_changes now previous_sectors current_sectors =
     (let new = current_sectors |-| previous_sectors;
          removed = previous_sectors |-| current_sectors;
          unchanged = current_sectors |\<inter>| previous_sectors
      in \<lparr> has_changes = (fcard new > 0 \<or> fcard removed > 0),
           new_sectors = new,
           removed_sectors = removed,
           unchanged_sectors = unchanged,
           total_previous = fcard previous_sectors,
           total_current = fcard current_sectors,
           timestamp = now \<rparr>)"

definition should_send_alert :: "change_info \<Rightarrow> bool" where
  "should_send_alert ci = (fcard (new_sectors ci) > 0)"

section \<open>Characters and strings as Python reads them\<close>

text \<open>
  A \<open>char\<close> is a code point below 256. On these, \<open>\d\<close> of the \<open>re\<close> module is
  the ten ASCII digits, \<open>\w\<close> is \<open>str.isalnum\<close> or the underscore, \<open>\s\<close> and
  \<open>str.strip\<close> agree on the white space, and \<open>str.lower\<close> adds 32 to a capital
  letter. Code points from 256 on are outside this model.
\<close>

definition in_range :: "nat \<Rightarrow> nat \<Rightarrow> char \<Rightarrow> bool" where
  "in_range lo hi c = (lo \<le> of_char c \<and> (of_char c :: nat) \<le> hi)"


definition is_alnum :: "char \<Rightarrow> bool" where
  "is_alnum c =
     (in_range 0x30 0x39 c \<or> in_range 0x41 0x5A c \<or> in_range 0x61 0x7A c \<or>
      in_range 0xAA 0xAA c \<or> in_range 0xB2 0xB3 c \<or> in_range 0xB5 0xB5 c \<or>
      in_range 0xB9 0xBA c \<or> in_range 0xBC 0xBE c \<or> in_range 0xC0 0xD6 c \<or>
      in_range 0xD8 0xF6 c \<or> in_range 0xF8 0xFF c)"

definition is_word :: "char \<Rightarrow> bool" where
  "is_word c = (is_alnum c \<or> c = CHR ''_'')"

definition is_space :: "char \<Rightarrow> bool" where
  "is_space c =
     (in_range 0x09 0x0D c \<or> in_range 0x1C 0x20 c \<or> in_range 0x85 0x85 c \<or>
      in_range 0xA0 0xA0 c)"

definition is_upper :: "char \<Rightarrow> bool" where
  "is_upper c = (in_range 0x41 0x5A c \<or> in_range 0xC0 0xD6 c \<or> in_range 0xD8 0xDE c)"

definition lower_char :: "char \<Rightarrow> char" where
  "lower_char c = (if is_upper c then char_of (of_char c + (32::nat)) else c)"

definition lower :: "string \<Rightarrow> string" where
  "lower s = map lower_char s"

definition strip :: "string \<Rightarrow> string" where
  "strip s = rev (dropWhile is_space (rev (dropWhile is_space s)))"

text \<open>\<open>needle in haystack\<close> on strings: the needle starts at some position.\<close>

fun starts_with :: "string \<Rightarrow> string \<Rightarrow> bool" where
  "starts_with [] s = True"
| "starts_with (p # ps) [] = False"
| "starts_with (p # ps) (c # cs) = (p = c \<and> starts_with ps cs)"

fun py_in :: "string \<Rightarrow> string \<Rightarrow> bool" where
  "py_in needle [] = (needle = [])"
| "py_in needle (c # cs) = (starts_with needle (c # cs) \<or> py_in needle cs)"

section \<open>Sector normalizer (app/monitor/parse.py)\<close>

text \<open>
  A raw sector is a dictionary from attribute names to strings, as the page script
  builds it; \<open>sector.get(k, '')\<close> is \<open>get_or_empty\<close> and \<open>sector.get(k)\<close> is the
  map itself, \<open>None\<close> for a missing key.
\<close>

type_synonym sector = "string \<rightharpoonup> string"

definition available_indicators :: "string list" where
  "available_indicators = [''disponible'', ''available'', ''selectable'', ''enabled'']"

definition unavailable_indicators :: "string list" where
  "unavailable_indicators =
     [''no disponible'', ''unavailable'', ''disabled'', ''sold out'', ''agotado'']"

definition get_or_empty :: "sector \<Rightarrow> string \<Rightarrow> string" where
  "get_or_empty sector k = (case sector k of None \<Rightarrow> [] | Some v \<Rightarrow> v)"

definition is_sector_available :: "sector \<Rightarrow> bool" where
  "is_sector_available sector =
     (let aria_label = lower (get_or_empty sector ''aria_label'') in
      if list_ex (\<lambda>indicator. py_in indicator aria_label) available_indicators then True
      else if list_ex (\<lambda>indicator. py_in indicator aria_label) unavailable_indicators
      then False
      else
        let class_names = lower (get_or_empty sector ''class_names'') in
        if py_in ''available'' class_names \<or> py_in ''selectable'' class_names then True
        else if py_in ''disabled'' class_names \<or> py_in ''unavailable'' class_names
        then False
        else
          let data_status = lower (get_or_empty sector ''data_status'') in
          if data_status \<in> set [''available'', ''enabled'', ''selectable''] then True
          else if data_status \<in> set [''unavailable'', ''disabled'', ''sold-out'']
          then False
          else
            let style = lower (get_or_empty sector ''style'');
                fill = lower (get_or_empty sector ''fill'')
            in
            if list_ex (\<lambda>color. py_in color style \<or> py_in color fill)
                 [''blue'', ''#0066cc'', ''#007bff'']
            then True
            else if list_ex (\<lambda>color. py_in color style \<or> py_in color fill)
                 [''gray'', ''grey'', ''#cccccc'', ''#999999'']
            then False
            else False)"

text \<open>\<open>a or b\<close> on values that are \<open>None\<close> or a string: \<open>a\<close> when it is truthy.\<close>

definition truthy :: "string option \<Rightarrow> bool" where
  "truthy v = (case v of None \<Rightarrow> False | Some s \<Rightarrow> s \<noteq> [])"

definition py_or :: "string option \<Rightarrow> string option \<Rightarrow> string option" where
  "py_or a b = (if truthy a then a else b)"

text \<open>\<open>re.sub(r'[^\w\s-]', '', s)\<close> keeps the characters of the class.\<close>

definition strip_special :: "string \<Rightarrow> string" where
  "strip_special s = filter (\<lambda>c. is_word c \<or> is_space c \<or> c = CHR ''-'') s"

text \<open>\<open>re.sub(r'\s+', '_', s)\<close>: every maximal run of white space becomes one underscore.\<close>

function collapse_ws :: "string \<Rightarrow> string" where
  "collapse_ws [] = []"
| "collapse_ws (c # cs) =
     (if is_space c then CHR ''_'' # collapse_ws (dropWhile is_space cs)
      else c # collapse_ws cs)"
  by pat_completeness auto
termination
  by (relation "measure length") (auto simp: length_dropWhile_le less_Suc_eq_le)

definition raw_sector_id :: "sector \<Rightarrow> string option" where
  "raw_sector_id sector =
     py_or (py_or (py_or (py_or (py_or (sector ''id'') (sector ''data_sector_id''))
                                (sector ''data_section''))
                         (sector ''aria_label''))
                  (sector ''title''))
           (Some (strip (get_or_empty sector ''text_content'')))"

definition extract_sector_id :: "sector \<Rightarrow> string option" where
  "extract_sector_id sector =
     (let sector_id = raw_sector_id sector in
      if truthy sector_id
      then Some (lower (collapse_ws (strip (strip_special (the sector_id)))))
      else None)"

fun normalize_loop :: "sector list \<Rightarrow> string fset \<Rightarrow> string fset" where
  "normalize_loop [] available_sectors = available_sectors"
| "normalize_loop (sector # rest) available_sectors =
     normalize_loop rest
       (if is_sector_available sector
        then (let sector_id = extract_sector_id sector in
              if truthy sector_id then finsert (the sector_id) available_sectors
              else available_sectors)
        else available_sectors)"

definition normalize_sectors :: "sector list \<Rightarrow> string fset" where
  "normalize_sectors raw_sectors = normalize_loop raw_sectors {||}"

text \<open>
  The cleanup as the specification words it: strip what is no letter, digit, white
  space or hyphen, turn each run of white space into one underscore, lower-case.
\<close>

definition spec_cleanup :: "string \<Rightarrow> string" where
  "spec_cleanup s =
     lower (collapse_ws (filter (\<lambda>c. is_alnum c \<or> is_space c \<or> c = CHR ''-'') s))"

section \<open>Storage (app/storage/db.py)\<close>

text \<open>
  Each table is the list of its rows in insertion order (the integer primary keys
  are left out). Times are microseconds since the epoch. A snapshot's
  \<open>sectors_data\<close> is the JSON text of \<open>list(s)\<close> for a set \<open>s\<close>, read back through
  \<open>set(json.loads(...))\<close>: the set itself here. \<open>outbox\<close> is not a table: it lists
  the calls made to \<open>client.messages.create\<close>, as \<open>(to, body)\<close>, and \<open>journal\<close> the
  order in which a monitoring cycle went through its steps.
\<close>

record event =
  event_id :: string
  url :: string
  name :: string
  last_checked :: int
  created_at :: int

record snapshot =
  snap_event_id :: string
  sectors_data :: "string fset"
  snap_timestamp :: int

record change_log =
  log_event_id :: string
  log_new_sectors :: "string fset"
  log_timestamp :: int
  sms_sent :: bool

record phone_number =
  phone :: string
  registered_at :: int
  active :: bool

record sms_log =
  sms_phone :: string
  sms_message :: string
  sms_timestamp :: int
  sms_success :: bool
  sms_error_message :: "string option"

datatype step =
  Observe | Normalize | GetPrevious | Detect | SaveSnapshot | UpdateTimestamp
  | LogChange | SendAlert

record world =
  events :: "event list"
  snapshots :: "snapshot list"
  change_logs :: "change_log list"
  phone_numbers :: "phone_number list"
  sms_logs :: "sms_log list"
  outbox :: "(string \<times> string) list"
  journal :: "step list"

text \<open>
  What a call cannot compute from its arguments: the clock, and which database
  operations raise. All readings of \<open>datetime.utcnow()\<close> during one call are taken
  at the same instant \<open>now\<close>. Every database access of the source sits in a
  \<open>try ... except Exception\<close>; an operation that raises leaves the tables as they
  were.
\<close>

datatype db_op =
  DedupQuery | ActivePhonesQuery | SmsLogInsert string | PhoneQuery | PhoneCommit
  | SnapshotQuery | SnapshotInsert | ChangeLogInsert | EventUpdate

record env =
  now :: int
  db_raises :: "db_op \<Rightarrow> bool"

section \<open>Alert dispatcher (app/alerts/sms.py)\<close>

definition ALERT_MESSAGE :: string where
  "ALERT_MESSAGE = ''Hay cambios en la plataforma''"

definition DEDUPLICATION_WINDOW_MINUTES :: int where
  "DEDUPLICATION_WINDOW_MINUTES = 5"

definition timedelta_minutes :: "int \<Rightarrow> int" where
  "timedelta_minutes m = m * 60000000"

text \<open>
  \<open>client.messages.create(body, from_, to)\<close> returns or raises; the client is
  \<open>None\<close> when the credentials are missing.
\<close>

datatype outcome = Delivered | TwilioException string | OtherException string

type_synonym client = "string \<Rightarrow> string \<Rightarrow> outcome"

definition is_configured :: "client option \<Rightarrow> bool" where
  "is_configured cl = (cl \<noteq> None)"

definition should_skip_due_to_deduplication :: "env \<Rightarrow> world \<Rightarrow> string \<Rightarrow> bool" where
  "should_skip_due_to_deduplication e w ev_id =
     (if db_raises e DedupQuery then False
      else
        let cutoff_time = now e - timedelta_minutes DEDUPLICATION_WINDOW_MINUTES;
            recent_logs =
              find (\<lambda>l. sms_timestamp l > cutoff_time \<and> sms_success l = True \<and>
                         sms_message l = ALERT_MESSAGE)
                (sms_logs w)
        in recent_logs \<noteq> None)"

definition get_active_phone_numbers :: "env \<Rightarrow> world \<Rightarrow> string list" where
  "get_active_phone_numbers e w =
     (if db_raises e ActivePhonesQuery then []
      else map phone (filter (\<lambda>p. active p = True) (phone_numbers w)))"

definition log_sms_attempt ::
  "env \<Rightarrow> string \<Rightarrow> string \<Rightarrow> bool \<Rightarrow> string option \<Rightarrow> world \<Rightarrow> world" where
  "log_sms_attempt e ph msg ok err w =
     (if db_raises e (SmsLogInsert ph) then w
      else w\<lparr>sms_logs := sms_logs w @
             [\<lparr>sms_phone = ph, sms_message = msg, sms_timestamp = now e,
               sms_success = ok, sms_error_message = err\<rparr>]\<rparr>)"

text \<open>
  With no client, \<open>self.client.messages\<close> raises an AttributeError, which the last
  \<open>except\<close> catches like any other exception.
\<close>

definition attribute_error :: string where
  "attribute_error =
     [CHR 0x27] @ ''NoneType'' @ [CHR 0x27] @ '' object has no attribute '' @
     [CHR 0x27] @ ''messages'' @ [CHR 0x27]"

definition send_sms_to_phone ::
  "env \<Rightarrow> client option \<Rightarrow> string \<Rightarrow> string \<Rightarrow> world \<Rightarrow> (bool \<times> string option) \<times> world" where
  "send_sms_to_phone e cl ph msg w =
     (case cl of
        None \<Rightarrow>
          (let error_msg = ''Unexpected error: '' @ attribute_error
           in ((False, Some error_msg), log_sms_attempt e ph msg False (Some error_msg) w))
      | Some create \<Rightarrow>
          (let w' = w\<lparr>outbox := outbox w @ [(ph, msg)]\<rparr> in
           case create ph msg of
             Delivered \<Rightarrow> ((True, None), log_sms_attempt e ph msg True None w')
           | TwilioException m \<Rightarrow>
               (let error_msg = ''Twilio error: '' @ m
                in ((False, Some error_msg), log_sms_attempt e ph msg False (Some error_msg) w'))
           | OtherException m \<Rightarrow>
               (let error_msg = ''Unexpected error: '' @ m
                in ((False, Some error_msg), log_sms_attempt e ph msg False (Some error_msg) w'))))"

text \<open>
  The dictionaries \<open>send_change_alert\<close> returns have three shapes:
  \<open>{"success": False, "error": e}\<close>,
  \<open>{"success": True, "skipped": True, "reason": r}\<close>, and the batch summary, whose
  \<open>"success"\<close> is set to \<open>True\<close> when it is created and never written again.
\<close>

record batch =
  total_phones :: nat
  sent_count :: nat
  failed_count :: nat
  errors :: "string list"
  dry_run :: bool

datatype alert_result = NotSent string | Skipped string | Batch batch

fun success :: "alert_result \<Rightarrow> bool" where
  "success (NotSent err) = False"
| "success (Skipped reason) = True"
| "success (Batch b) = True"

fun skipped :: "alert_result \<Rightarrow> bool" where
  "skipped (Skipped reason) = True"
| "skipped r = False"

definition format_opt :: "string option \<Rightarrow> string" where
  "format_opt v = (case v of None \<Rightarrow> ''None'' | Some s \<Rightarrow> s)"

text \<open>
  The loop over the active numbers. Neither \<open>_send_sms_to_phone\<close> nor
  \<open>_log_sms_attempt\<close> lets an exception out, so the loop's own \<open>except\<close> branch is
  never taken.
\<close>

fun send_loop ::
  "env \<Rightarrow> client option \<Rightarrow> bool \<Rightarrow> string list \<Rightarrow> batch \<times> world \<Rightarrow> batch \<times> world" where
  "send_loop e cl dry [] (results, w) = (results, w)"
| "send_loop e cl dry (ph # rest) (results, w) =
     send_loop e cl dry rest
       (if dry
        then (results\<lparr>sent_count := sent_count results + 1\<rparr>,
              log_sms_attempt e ph ALERT_MESSAGE True None w)
        else
          (case send_sms_to_phone e cl ph ALERT_MESSAGE w of
             ((ok, err), w') \<Rightarrow>
               if ok then (results\<lparr>sent_count := sent_count results + 1\<rparr>, w')
               else (results\<lparr>failed_count := failed_count results + 1,
                             errors := errors results @ [ph @ '': '' @ format_opt err]\<rparr>,
                     w')))"

definition send_change_alert ::
  "env \<Rightarrow> client option \<Rightarrow> string \<Rightarrow> string fset \<Rightarrow> bool \<Rightarrow> world \<Rightarrow> alert_result \<times> world" where
  "send_change_alert e cl ev_id new dry w =
     (if \<not> is_configured cl then (NotSent ''SMS service not configured'', w)
      else if should_skip_due_to_deduplication e w ev_id
      then (Skipped ''deduplication'', w)
      else
        let active_phones = get_active_phone_numbers e w in
        if active_phones = [] then (Skipped ''no_phones'', w)
        else
          (case send_loop e cl dry active_phones
                  (\<lparr>total_phones = length active_phones, sent_count = 0,
                    failed_count = 0, errors = [], dry_run = dry\<rparr>, w) of
             (results, w') \<Rightarrow> (Batch results, w')))"

subsection \<open>Recipients\<close>








fun update_first :: "('a \<Rightarrow> bool) \<Rightarrow> ('a \<Rightarrow> 'a) \<Rightarrow> 'a list \<Rightarrow> 'a list" where
  "update_first P f [] = []"
| "update_first P f (x # xs) = (if P x then f x # xs else x # update_first P f xs)"


section \<open>Monitoring cycle (app/main.py, app/monitor/fetch.py)\<close>

text \<open>
  What the browser gives for one event: \<open>start_browser\<close> raises (the exception
  leaves the \<open>async with\<close> block), \<open>scrape_event\<close> catches an exception of the page
  and returns \<open>None\<close>, or the page script returns the raw sectors, which
  \<open>scrape_event\<close> normalizes. \<open>mark\<close> notes a step in the journal of the world the
  step starts from.
\<close>

datatype observation = BrowserFailed string | PageFailed | Extracted "sector list"

definition mark :: "step \<Rightarrow> world \<Rightarrow> world" where
  "mark s w = w\<lparr>journal := journal w @ [s]\<rparr>"

definition scrape :: "observation \<Rightarrow> world \<Rightarrow> (string + string fset option) \<times> world" where
  "scrape obs w =
     (case obs of
        BrowserFailed msg \<Rightarrow> (Inl msg, mark Observe w)
      | PageFailed \<Rightarrow> (Inr None, mark Observe w)
      | Extracted raw_sectors \<Rightarrow>
          (Inr (Some (normalize_sectors raw_sectors)), mark Normalize (mark Observe w)))"

record monitor_result =
  res_event_id :: string
  res_success :: bool
  sectors_found :: nat
  changes_detected :: bool
  res_new_sectors :: "string fset"
  res_sms_sent :: bool
  res_error :: "string option"

text \<open>
  \<open>order_by(Snapshot.timestamp.desc()).first()\<close>: a row of the greatest timestamp
  (SQL leaves open which one when several rows share it; here the one inserted
  first).
\<close>

fun latest :: "snapshot list \<Rightarrow> snapshot option" where
  "latest [] = None"
| "latest (s # rest) =
     (case latest rest of
        None \<Rightarrow> Some s
      | Some t \<Rightarrow> if snap_timestamp t > snap_timestamp s then Some t else Some s)"

definition get_previous_snapshot :: "env \<Rightarrow> world \<Rightarrow> string \<Rightarrow> string fset" where
  "get_previous_snapshot e w ev_id =
     (if db_raises e SnapshotQuery then {||}
      else
        (case latest (filter (\<lambda>s. snap_event_id s = ev_id) (snapshots w)) of
           Some latest_snapshot \<Rightarrow> sectors_data latest_snapshot
         | None \<Rightarrow> {||}))"

definition save_snapshot :: "env \<Rightarrow> string \<Rightarrow> string fset \<Rightarrow> world \<Rightarrow> world" where
  "save_snapshot e ev_id sectors w =
     (if db_raises e SnapshotInsert then w
      else w\<lparr>snapshots := snapshots w @
             [\<lparr>snap_event_id = ev_id, sectors_data = sectors, snap_timestamp = now e\<rparr>]\<rparr>)"

definition log_change :: "env \<Rightarrow> bool \<Rightarrow> string \<Rightarrow> string fset \<Rightarrow> world \<Rightarrow> world" where
  "log_change e dry ev_id new w =
     (if db_raises e ChangeLogInsert then w
      else w\<lparr>change_logs := change_logs w @
             [\<lparr>log_event_id = ev_id, log_new_sectors = new, log_timestamp = now e,
               sms_sent = (\<not> dry)\<rparr>]\<rparr>)"

definition update_event_timestamp :: "env \<Rightarrow> string \<Rightarrow> world \<Rightarrow> world" where
  "update_event_timestamp e ev_id w =
     (if db_raises e EventUpdate then w
      else w\<lparr>events :=
             update_first (\<lambda>ev. event_id ev = ev_id) (\<lambda>ev. ev\<lparr>last_checked := now e\<rparr>)
               (events w)\<rparr>)"

definition monitor_single_event ::
  "env \<Rightarrow> client option \<Rightarrow> bool \<Rightarrow> string \<Rightarrow> observation \<Rightarrow> world \<Rightarrow> monitor_result \<times> world" where
  "monitor_single_event e cl dry ev_id obs w =
     (let result = \<lparr>res_event_id = ev_id, res_success = False, sectors_found = 0,
                     changes_detected = False, res_new_sectors = {||},
                     res_sms_sent = False, res_error = None\<rparr>
      in
      case scrape obs w of
        (Inl msg, w0) \<Rightarrow> (result\<lparr>res_error := Some msg\<rparr>, w0)
      | (Inr None, w0) \<Rightarrow> (result\<lparr>res_error := Some ''Failed to scrape event''\<rparr>, w0)
      | (Inr (Some current_sectors), w0) \<Rightarrow>
          let result = result\<lparr>sectors_found := fcard current_sectors\<rparr>;
              w1 = mark GetPrevious w0;
              previous_sectors_set = get_previous_snapshot e w1 ev_id;
              w2 = mark Detect w1;
              change_info = detect_changes (now e) previous_sectors_set current_sectors;
              result = result\<lparr>changes_detected := has_changes change_info,
                              res_new_sectors := new_sectors change_info\<rparr>;
              w3 = save_snapshot e ev_id current_sectors (mark SaveSnapshot w2);
              w4 = update_event_timestamp e ev_id (mark UpdateTimestamp w3)
          in
          if should_send_alert change_info
          then
            (let w5 = log_change e dry ev_id (new_sectors change_info) (mark LogChange w4)
             in
             case send_change_alert e cl ev_id (new_sectors change_info) dry
                    (mark SendAlert w5) of
               (sms_result, w6) \<Rightarrow>
                 (result\<lparr>res_sms_sent := success sms_result, res_success := True\<rparr>, w6))
          else (result\<lparr>res_success := True\<rparr>, w4))"

text \<open>
  The order the specification gives for a cycle that detects new items: the change
  record and the alert come before the new snapshot and the timestamp.
\<close>

fun position :: "step \<Rightarrow> step list \<Rightarrow> nat option" where
  "position s [] = None"
| "position s (x # xs) =
     (if x = s then Some 0 else map_option Suc (position s xs))"

definition before :: "step \<Rightarrow> step \<Rightarrow> step list \<Rightarrow> bool" where
  "before a b j =
     (case (position a j, position b j) of
        (Some i, Some k) \<Rightarrow> i < k
      | _ \<Rightarrow> False)"

definition spec_order :: "step list \<Rightarrow> bool" where
  "spec_order j =
     (before Observe Normalize j \<and> before Normalize Detect j \<and>
      before Detect LogChange j \<and> before LogChange SendAlert j \<and>
      before SendAlert SaveSnapshot j \<and> before SaveSnapshot UpdateTimestamp j)"

section \<open>Notions used to state the properties, and example inputs\<close>

text \<open>
  An attempt for one number counts as a success when the run is a dry run, or when
  the carrier accepts the fixed alert text for that number.
\<close>

definition delivered :: "client option \<Rightarrow> bool \<Rightarrow> string \<Rightarrow> bool" where
  "delivered cl dry ph =
     (dry \<or> (case cl of None \<Rightarrow> False | Some create \<Rightarrow> create ph ALERT_MESSAGE = Delivered))"

text \<open>
  A database that never raises, one whose snapshot insert raises and one whose
  deduplication lookup raises; a carrier that refuses one number; a store with three
  active recipients and an inactive one, and the same store with one successful
  alert in its delivery log; the first raw sector of the repository's parser test.
\<close>

definition no_failure :: "db_op \<Rightarrow> bool" where
  "no_failure op = False"

definition snapshot_write_fails :: "db_op \<Rightarrow> bool" where
  "snapshot_write_fails op = (op = SnapshotInsert)"

definition carrier :: client where
  "carrier to body =
     (if to = ''+573009999999'' then TwilioException ''unreachable'' else Delivered)"

definition three_phones :: world where
  "three_phones =
     \<lparr>events = [], snapshots = [], change_logs = [],
      phone_numbers =
        [\<lparr>phone = ''+573001234567'', registered_at = 0, active = True\<rparr>,
         \<lparr>phone = ''+573009999999'', registered_at = 0, active = True\<rparr>,
         \<lparr>phone = ''+573007654321'', registered_at = 0, active = True\<rparr>,
         \<lparr>phone = ''+573000000000'', registered_at = 0, active = False\<rparr>],
      sms_logs = [], outbox = [], journal = []\<rparr>"

definition dedup_lookup_fails :: "db_op \<Rightarrow> bool" where
  "dedup_lookup_fails op = (op = DedupQuery)"

definition recently_alerted :: world where
  "recently_alerted =
     three_phones\<lparr>sms_logs :=
       [\<lparr>sms_phone = ''+573001234567'', sms_message = ''Hay cambios en la plataforma'',
         sms_timestamp = 1000000000, sms_success = True, sms_error_message = None\<rparr>]\<rparr>"

definition sector_a :: sector where
  "sector_a = [''id'' \<mapsto> ''sector_1'', ''aria_label'' \<mapsto> ''Sector A - Disponible'',
               ''class_names'' \<mapsto> ''sector-element'']"

section \<open>Theorems\<close>

lemma fcard_pos_iff: "(0 < fcard A) = (A \<noteq> {||})"
  by (simp add: zero_less_iff_neq_zero)

subsection \<open>Change detector\<close>

text \<open>
  C2. For all finite sets of strings \<open>A\<close> (previous) and \<open>B\<close> (current),
  \<open>detect_changes\<close> returns the new items \<open>B - A\<close>, the removed items \<open>A - B\<close>, the
  unchanged items \<open>A \<inter> B\<close>, the counts \<open>|A|\<close> and \<open>|B|\<close>, and \<open>has_changes\<close> is
  true exactly when \<open>B - A\<close> or \<open>A - B\<close> is not empty.
\<close>

theorem detect_changes_sets:
  "new_sectors (detect_changes t A B) = B |-| A \<and>
   removed_sectors (detect_changes t A B) = A |-| B \<and>
   unchanged_sectors (detect_changes t A B) = A |\<inter>| B \<and>
   total_previous (detect_changes t A B) = fcard A \<and>
   total_current (detect_changes t A B) = fcard B \<and>
   has_changes (detect_changes t A B) = (B |-| A \<noteq> {||} \<or> A |-| B \<noteq> {||})"
  by (simp add: detect_changes_def Let_def fcard_pos_iff inf_commute)

theorem detect_changes_sets_witness:
  "new_sectors (detect_changes 0 {|''a'', ''b'', ''c''|} {|''a''|}) = {||} \<and>
   removed_sectors (detect_changes 0 {|''a'', ''b'', ''c''|} {|''a''|}) = {|''b'', ''c''|} \<and>
   unchanged_sectors (detect_changes 0 {|''a'', ''b'', ''c''|} {|''a''|}) = {|''a''|} \<and>
   total_previous (detect_changes 0 {|''a'', ''b'', ''c''|} {|''a''|}) = 3 \<and>
   total_current (detect_changes 0 {|''a'', ''b'', ''c''|} {|''a''|}) = 1 \<and>
   has_changes (detect_changes 0 {|''a'', ''b'', ''c''|} {|''a''|}) = True"
  using detect_changes_sets [of 0 "{|''a'', ''b'', ''c''|}" "{|''a''|}"]
  by (auto simp: fcard_finsert_if)

text \<open>
  C3. \<open>should_send_alert\<close> of \<open>detect_changes A B\<close> holds exactly when \<open>B - A\<close> is not
  empty: a diff that only removes items (such as \<open>A = {a, b, c}\<close>, \<open>B = {a}\<close>) never
  alerts, and \<open>detect_changes A A\<close> has no changes and no alert.
\<close>

theorem should_send_alert_iff:
  "should_send_alert (detect_changes t A B) = (B |-| A \<noteq> {||}) \<and>
   (B |-| A = {||} \<longrightarrow> \<not> should_send_alert (detect_changes t A B)) \<and>
   \<not> should_send_alert (detect_changes t {|''a'', ''b'', ''c''|} {|''a''|}) \<and>
   \<not> has_changes (detect_changes t A A) \<and>
   \<not> should_send_alert (detect_changes t A A)"
  by (simp add: should_send_alert_def detect_changes_def Let_def fcard_pos_iff)

theorem should_send_alert_iff_witness:
  "{|''a''|} |-| {|''a'', ''b'', ''c''|} = ({||} :: string fset) \<and>
   {|''a'', ''b'', ''c''|} |-| {|''a''|} \<noteq> ({||} :: string fset) \<and>
   \<not> should_send_alert (detect_changes 0 {|''a'', ''b'', ''c''|} {|''a''|}) \<and>
   should_send_alert (detect_changes 0 {|''a'', ''b''|} {|''a'', ''b'', ''c'', ''d''|})"
  using should_send_alert_iff [of 0 "{|''a'', ''b'', ''c''|}" "{|''a''|}"]
    should_send_alert_iff [of 0 "{|''a'', ''b''|}" "{|''a'', ''b'', ''c'', ''d''|}"]
  by auto


subsection \<open>Sector normalizer: the availability classifier\<close>

lemma starts_with_iff: "starts_with p s = (\<exists>ys. s = p @ ys)"
  by (induction p s rule: starts_with.induct) auto

lemma py_in_iff: "py_in p s = (\<exists>xs ys. s = xs @ p @ ys)"
proof (induction s)
  case Nil
  then show ?case by auto
next
  case (Cons c cs)
  show ?case
  proof
    assume "py_in p (c # cs)"
    then consider "starts_with p (c # cs)" | "py_in p cs" by auto
    then show "\<exists>xs ys. c # cs = xs @ p @ ys"
    proof cases
      case 1
      then obtain ys where "c # cs = p @ ys" by (auto simp: starts_with_iff)
      then have "c # cs = [] @ p @ ys" by simp
      then show ?thesis by blast
    next
      case 2
      then obtain xs ys where "cs = xs @ p @ ys" using Cons.IH by auto
      then have "c # cs = (c # xs) @ p @ ys" by simp
      then show ?thesis by blast
    qed
  next
    assume "\<exists>xs ys. c # cs = xs @ p @ ys"
    then obtain xs ys where eq: "c # cs = xs @ p @ ys" by auto
    show "py_in p (c # cs)"
    proof (cases xs)
      case Nil
      then have "starts_with p (c # cs)" using eq by (auto simp: starts_with_iff)
      then show ?thesis by simp
    next
      case (Cons x xs')
      then have "cs = xs' @ p @ ys" using eq by simp
      then have "py_in p cs" using Cons.IH by auto
      then show ?thesis by simp
    qed
  qed
qed

lemma py_in_lower: "py_in p s \<Longrightarrow> py_in (lower p) (lower s)"
proof -
  assume "py_in p s"
  then obtain xs ys where "s = xs @ p @ ys" by (auto simp: py_in_iff)
  then have "lower s = lower xs @ lower p @ lower ys" by (simp add: lower_def)
  then show ?thesis unfolding py_in_iff by blast
qed

lemma lower_no_disponible: "lower ''no disponible'' = ''no disponible''"
  by code_simp

lemma py_in_suffix_of_needle: "py_in (q @ p) s \<Longrightarrow> py_in p s"
proof -
  assume "py_in (q @ p) s"
  then obtain xs ys where "s = xs @ (q @ p) @ ys" by (auto simp: py_in_iff)
  then have "s = (xs @ q) @ p @ ys" by simp
  then show ?thesis unfolding py_in_iff by blast
qed

lemma disponible_in: "py_in ''no disponible'' s \<Longrightarrow> py_in ''disponible'' s"
  using py_in_suffix_of_needle [of "''no ''" "''disponible''" s] by simp

lemma available_of_lowered:
  "py_in ''disponible'' (lower (get_or_empty sector ''aria_label'')) \<Longrightarrow>
   is_sector_available sector"
  by (simp add: is_sector_available_def available_indicators_def Let_def)

text \<open>
  C10. A raw item whose label contains \<open>no disponible\<close> (as written, or after
  lower-casing as the classifier reads it) also contains \<open>disponible\<close>, an
  available indicator, and the available indicators are tried first: the item is
  classified available.
\<close>

theorem no_disponible_is_available:
  "(py_in ''no disponible'' (get_or_empty sector ''aria_label'') \<longrightarrow>
      is_sector_available sector) \<and>
   (py_in ''no disponible'' (lower (get_or_empty sector ''aria_label'')) \<longrightarrow>
      is_sector_available sector)"
proof (intro conjI impI)
  assume "py_in ''no disponible'' (get_or_empty sector ''aria_label'')"
  then have "py_in ''no disponible'' (lower (get_or_empty sector ''aria_label''))"
    using py_in_lower lower_no_disponible by metis
  then show "is_sector_available sector"
    by (intro available_of_lowered disponible_in)
next
  assume "py_in ''no disponible'' (lower (get_or_empty sector ''aria_label''))"
  then show "is_sector_available sector"
    by (intro available_of_lowered disponible_in)
qed

theorem no_disponible_is_available_witness:
  "py_in ''no disponible''
     (get_or_empty [''id'' \<mapsto> ''sector_2'', ''aria_label'' \<mapsto> ''asiento no disponible'']
        ''aria_label'') \<and>
   is_sector_available [''id'' \<mapsto> ''sector_2'', ''aria_label'' \<mapsto> ''asiento no disponible''] \<and>
   py_in ''no disponible''
     (lower (get_or_empty [''id'' \<mapsto> ''sector_2'',
        ''aria_label'' \<mapsto> ''Sector B - No disponible'',
        ''class_names'' \<mapsto> ''sector-element''] ''aria_label'')) \<and>
   is_sector_available [''id'' \<mapsto> ''sector_2'',
        ''aria_label'' \<mapsto> ''Sector B - No disponible'',
        ''class_names'' \<mapsto> ''sector-element'']"
proof -
  have a: "py_in ''no disponible''
     (get_or_empty [''id'' \<mapsto> ''sector_2'', ''aria_label'' \<mapsto> ''asiento no disponible'']
        ''aria_label'')"
    by (simp add: get_or_empty_def)
  have b: "py_in ''no disponible''
     (lower (get_or_empty [''id'' \<mapsto> ''sector_2'',
        ''aria_label'' \<mapsto> ''Sector B - No disponible'',
        ''class_names'' \<mapsto> ''sector-element''] ''aria_label''))"
    by code_simp
  show ?thesis
    using a b
      no_disponible_is_available
        [of "[''id'' \<mapsto> ''sector_2'', ''aria_label'' \<mapsto> ''asiento no disponible'']"]
      no_disponible_is_available
        [of "[''id'' \<mapsto> ''sector_2'', ''aria_label'' \<mapsto> ''Sector B - No disponible'',
              ''class_names'' \<mapsto> ''sector-element'']"]
    by blast
qed

subsection \<open>Sector normalizer: the identifier\<close>

lemma lower_char_upper:
  assumes "is_upper c"
  shows "in_range 0x61 0x7A (lower_char c) \<or> in_range 0xE0 0xF6 (lower_char c) \<or>
         in_range 0xF8 0xFE (lower_char c)"
proof -
  from assms have lt: "(of_char c :: nat) + 32 < 256"
    by (auto simp: is_upper_def in_range_def)
  have eq: "(of_char (lower_char c) :: nat) = of_char c + 32"
    using assms lt by (simp add: lower_char_def of_char_of)
  from assms consider "in_range 0x41 0x5A c" | "in_range 0xC0 0xD6 c" | "in_range 0xD8 0xDE c"
    by (auto simp: is_upper_def)
  then show ?thesis
    by cases (simp_all add: in_range_def eq)
qed

lemma lower_char_id: "\<not> is_upper c \<Longrightarrow> lower_char c = c"
  by (simp add: lower_char_def)

lemma lower_char_not_upper: "\<not> is_upper (lower_char c)"
proof (cases "is_upper c")
  case True
  from lower_char_upper [OF True] consider "in_range 0x61 0x7A (lower_char c)"
    | "in_range 0xE0 0xF6 (lower_char c)" | "in_range 0xF8 0xFE (lower_char c)"
    by blast
  then show ?thesis by cases (simp_all add: is_upper_def in_range_def)
next
  case False
  then show ?thesis by (simp add: lower_char_id)
qed

lemma lower_char_alnum: "is_alnum c \<Longrightarrow> is_alnum (lower_char c)"
proof (cases "is_upper c")
  case True
  from lower_char_upper [OF True] consider "in_range 0x61 0x7A (lower_char c)"
    | "in_range 0xE0 0xF6 (lower_char c)" | "in_range 0xF8 0xFE (lower_char c)"
    by blast
  then show ?thesis by cases (simp_all add: is_alnum_def in_range_def)
next
  case False
  then show "is_alnum c \<Longrightarrow> ?thesis" by (simp add: lower_char_id)
qed

lemma lower_char_not_space: "\<not> is_space c \<Longrightarrow> \<not> is_space (lower_char c)"
proof (cases "is_upper c")
  case True
  from lower_char_upper [OF True] consider "in_range 0x61 0x7A (lower_char c)"
    | "in_range 0xE0 0xF6 (lower_char c)" | "in_range 0xF8 0xFE (lower_char c)"
    by blast
  then show ?thesis by cases (simp_all add: is_space_def in_range_def)
next
  case False
  then show "\<not> is_space c \<Longrightarrow> ?thesis" by (simp add: lower_char_id)
qed

lemma lower_char_fixed:
  "lower_char (CHR ''_'') = CHR ''_'' \<and> lower_char (CHR ''-'') = CHR ''-''"
  by code_simp

lemma set_collapse_ws:
  "set (collapse_ws s) \<subseteq> {c \<in> set s. \<not> is_space c} \<union> {CHR ''_''}"
proof (induction s rule: collapse_ws.induct)
  case 1
  then show ?case by simp
next
  case (2 c cs)
  have "set (dropWhile is_space cs) \<subseteq> set cs" by (auto dest: set_dropWhileD)
  with 2 show ?case by (auto split: if_splits)
qed

text \<open>
  What \<open>collapse_ws\<close> does to a string is fixed by these two facts: a stretch with
  no white space is copied, and a maximal run of white space gives one underscore.
\<close>

lemma collapse_ws_plain:
  "\<forall>c \<in> set s. \<not> is_space c \<Longrightarrow> collapse_ws (s @ rest) = s @ collapse_ws rest"
  by (induction s) simp_all

lemma dropWhile_at_word:
  "rest = [] \<or> \<not> is_space (hd rest) \<Longrightarrow> dropWhile is_space rest = rest"
  by (cases rest) auto

lemma collapse_ws_run:
  "ws \<noteq> [] \<Longrightarrow> \<forall>c \<in> set ws. is_space c \<Longrightarrow> rest = [] \<or> \<not> is_space (hd rest) \<Longrightarrow>
   collapse_ws (ws @ rest) = CHR ''_'' # collapse_ws rest"
  by (cases ws) (simp_all add: dropWhile_at_word)

lemma set_strip: "set (strip s) \<subseteq> set s"
  unfolding strip_def by (auto dest!: set_dropWhileD)

lemma cleaned_chars:
  assumes "c \<in> set (lower (collapse_ws (strip (strip_special raw))))"
  shows "\<not> is_space c \<and> \<not> is_upper c \<and> (is_alnum c \<or> c = CHR ''_'' \<or> c = CHR ''-'')"
proof -
  from assms obtain d where d: "d \<in> set (collapse_ws (strip (strip_special raw)))"
    and c: "c = lower_char d" by (auto simp: lower_def)
  have us: "\<not> is_space (CHR ''_'')" "\<not> is_space (CHR ''-'')" by code_simp+
  from d set_collapse_ws
  have "d = CHR ''_'' \<or> (d \<in> set (strip (strip_special raw)) \<and> \<not> is_space d)"
    by blast
  moreover have "d \<in> set (strip (strip_special raw)) \<Longrightarrow>
      is_alnum d \<or> d = CHR ''_'' \<or> is_space d \<or> d = CHR ''-''"
    using set_strip [of "strip_special raw"] by (auto simp: strip_special_def is_word_def)
  ultimately have nd: "\<not> is_space d" and kd: "is_alnum d \<or> d = CHR ''_'' \<or> d = CHR ''-''"
    using us by auto
  from nd have 1: "\<not> is_space c" unfolding c by (rule lower_char_not_space)
  have 2: "\<not> is_upper c" unfolding c by (rule lower_char_not_upper)
  from kd have 3: "is_alnum c \<or> c = CHR ''_'' \<or> c = CHR ''-''"
    unfolding c using lower_char_alnum lower_char_fixed by auto
  from 1 2 3 show ?thesis by simp
qed

lemma normalize_loop_eq:
  "normalize_loop raw acc =
     acc |\<union>| fset_of_list (map (\<lambda>s. the (extract_sector_id s))
       (filter (\<lambda>s. is_sector_available s \<and> truthy (extract_sector_id s)) raw))"
  by (induction raw arbitrary: acc) (auto simp: Let_def)

lemma truthy_iff: "truthy v = (v \<noteq> None \<and> v \<noteq> Some [])"
  by (cases v) (simp_all add: truthy_def)

text \<open>
  C9, as amended. When the first non-empty identifier source of a raw item is
  \<open>raw\<close>, the canonical identifier is \<open>raw\<close> with every character outside
  letters, digits, underscore, white space and hyphen stripped, leading and trailing
  white space trimmed, each remaining run of white space turned into one underscore,
  and lower-cased; it holds no white space and no capital letter. The raw id
  \<open>Sector A-1 (Premium)!\<close> gives \<open>sector_a-1_premium\<close>. \<open>normalize_sectors\<close> returns
  the non-empty canonical identifiers of the items classified available, so an item
  whose identifier is empty after the cleanup is dropped.
\<close>

theorem extract_sector_id_cleanup:
  "(raw_sector_id sector = Some raw \<and> raw \<noteq> [] \<longrightarrow>
      extract_sector_id sector =
        Some (lower (collapse_ws (strip (filter
          (\<lambda>c. is_alnum c \<or> c = CHR ''_'' \<or> is_space c \<or> c = CHR ''-'') raw))))) \<and>
   (raw_sector_id sector = Some [] \<longrightarrow> extract_sector_id sector = None) \<and>
   (\<forall>sid. extract_sector_id sector = Some sid \<longrightarrow>
      (\<forall>c \<in> set sid. \<not> is_space c \<and> \<not> is_upper c \<and>
          (is_alnum c \<or> c = CHR ''_'' \<or> c = CHR ''-''))) \<and>
   extract_sector_id [''id'' \<mapsto> ''Sector A-1 (Premium)!''] = Some ''sector_a-1_premium'' \<and>
   normalize_sectors raw_sectors =
     fset_of_list (map (\<lambda>s. the (extract_sector_id s))
       (filter (\<lambda>s. is_sector_available s \<and> extract_sector_id s \<noteq> None \<and>
                     extract_sector_id s \<noteq> Some []) raw_sectors)) \<and>
   [] |\<notin>| normalize_sectors raw_sectors"
proof -
  have a: "raw_sector_id sector = Some raw \<and> raw \<noteq> [] \<longrightarrow>
      extract_sector_id sector =
        Some (lower (collapse_ws (strip (filter
          (\<lambda>c. is_alnum c \<or> c = CHR ''_'' \<or> is_space c \<or> c = CHR ''-'') raw))))"
    by (simp add: extract_sector_id_def truthy_def strip_special_def is_word_def disj_ac)
  have b: "raw_sector_id sector = Some [] \<longrightarrow> extract_sector_id sector = None"
    by (simp add: extract_sector_id_def truthy_def)
  have c: "\<forall>sid. extract_sector_id sector = Some sid \<longrightarrow>
      (\<forall>c \<in> set sid. \<not> is_space c \<and> \<not> is_upper c \<and>
          (is_alnum c \<or> c = CHR ''_'' \<or> c = CHR ''-''))"
    using cleaned_chars by (auto simp: extract_sector_id_def Let_def split: if_splits)
  have d: "extract_sector_id [''id'' \<mapsto> ''Sector A-1 (Premium)!''] =
      Some ''sector_a-1_premium''"
    by code_simp
  have e: "normalize_sectors raw_sectors =
     fset_of_list (map (\<lambda>s. the (extract_sector_id s))
       (filter (\<lambda>s. is_sector_available s \<and> extract_sector_id s \<noteq> None \<and>
                     extract_sector_id s \<noteq> Some []) raw_sectors))"
    by (simp add: normalize_sectors_def normalize_loop_eq truthy_iff)
  have f: "[] |\<notin>| normalize_sectors raw_sectors"
    unfolding e by (auto simp: fset_of_list.rep_eq)
  from a b c d e f show ?thesis by blast
qed

theorem extract_sector_id_cleanup_witness:
  "raw_sector_id [''id'' \<mapsto> '' Sector_A  1 (VIP)! ''] = Some '' Sector_A  1 (VIP)! '' \<and>
   extract_sector_id [''id'' \<mapsto> '' Sector_A  1 (VIP)! ''] = Some ''sector_a_1_vip'' \<and>
   raw_sector_id [''id'' \<mapsto> []] = Some [] \<and>
   extract_sector_id [''id'' \<mapsto> []] = None \<and>
   is_sector_available [''id'' \<mapsto> ''(!)'', ''data_status'' \<mapsto> ''available''] \<and>
   extract_sector_id [''id'' \<mapsto> ''(!)'', ''data_status'' \<mapsto> ''available''] = Some [] \<and>
   normalize_sectors [[''id'' \<mapsto> ''(!)'', ''data_status'' \<mapsto> ''available'']] = {||}"
proof -
  have r1: "raw_sector_id [''id'' \<mapsto> '' Sector_A  1 (VIP)! ''] = Some '' Sector_A  1 (VIP)! ''"
    by code_simp
  have c1: "lower (collapse_ws (strip (filter
      (\<lambda>c. is_alnum c \<or> c = CHR ''_'' \<or> is_space c \<or> c = CHR ''-'')
      '' Sector_A  1 (VIP)! ''))) = ''sector_a_1_vip''"
    by code_simp
  note t1 = extract_sector_id_cleanup
      [of "[''id'' \<mapsto> '' Sector_A  1 (VIP)! '']" "'' Sector_A  1 (VIP)! ''" "[]",
       THEN conjunct1]
  from t1 r1 have "extract_sector_id [''id'' \<mapsto> '' Sector_A  1 (VIP)! ''] =
      Some (lower (collapse_ws (strip (filter
        (\<lambda>c. is_alnum c \<or> c = CHR ''_'' \<or> is_space c \<or> c = CHR ''-'')
        '' Sector_A  1 (VIP)! ''))))"
    by blast
  then have e1: "extract_sector_id [''id'' \<mapsto> '' Sector_A  1 (VIP)! ''] = Some ''sector_a_1_vip''"
    unfolding c1 .
  have r2: "raw_sector_id [''id'' \<mapsto> []] = Some []"
    by code_simp
  have e2: "extract_sector_id [''id'' \<mapsto> []] = None"
    using extract_sector_id_cleanup
      [of "[''id'' \<mapsto> []]" "[]" "[]", THEN conjunct2, THEN conjunct1] r2
    by blast
  have a3: "is_sector_available [''id'' \<mapsto> ''(!)'', ''data_status'' \<mapsto> ''available'']"
    by code_simp
  have e3: "extract_sector_id [''id'' \<mapsto> ''(!)'', ''data_status'' \<mapsto> ''available''] = Some []"
    by code_simp
  note t3 = extract_sector_id_cleanup
      [of "[''id'' \<mapsto> []]" "[]" "[[''id'' \<mapsto> ''(!)'', ''data_status'' \<mapsto> ''available'']]",
       THEN conjunct2, THEN conjunct2, THEN conjunct2, THEN conjunct2, THEN conjunct1]
  have n3: "normalize_sectors [[''id'' \<mapsto> ''(!)'', ''data_status'' \<mapsto> ''available'']] = {||}"
    unfolding t3 by (simp add: e3)
  from r1 e1 r2 e2 a3 e3 n3 show ?thesis by blast
qed

text \<open>
  C9 as the specification words it fails on an underscore, which \<open>\w\<close> keeps: the
  item of the repository's own test with id \<open>sector_1\<close> keeps its underscore. It also
  fails on white space at either end, which the code trims before it collapses runs.
\<close>

theorem spec_cleanup_counterexample:
  "is_sector_available [''id'' \<mapsto> ''sector_1'', ''aria_label'' \<mapsto> ''Sector A - Disponible'',
      ''class_names'' \<mapsto> ''sector-element''] \<and>
   raw_sector_id [''id'' \<mapsto> ''sector_1'', ''aria_label'' \<mapsto> ''Sector A - Disponible'',
      ''class_names'' \<mapsto> ''sector-element''] = Some ''sector_1'' \<and>
   extract_sector_id [''id'' \<mapsto> ''sector_1'', ''aria_label'' \<mapsto> ''Sector A - Disponible'',
      ''class_names'' \<mapsto> ''sector-element''] = Some ''sector_1'' \<and>
   spec_cleanup ''sector_1'' = ''sector1'' \<and>
   extract_sector_id [''id'' \<mapsto> '' VIP 2 '', ''data_status'' \<mapsto> ''available''] = Some ''vip_2'' \<and>
   spec_cleanup '' VIP 2 '' = ''_vip_2_''"
proof -
  have a: "is_sector_available [''id'' \<mapsto> ''sector_1'',
      ''aria_label'' \<mapsto> ''Sector A - Disponible'', ''class_names'' \<mapsto> ''sector-element'']"
    by code_simp
  have b: "raw_sector_id [''id'' \<mapsto> ''sector_1'',
      ''aria_label'' \<mapsto> ''Sector A - Disponible'', ''class_names'' \<mapsto> ''sector-element''] =
      Some ''sector_1''"
    by code_simp
  have c: "extract_sector_id [''id'' \<mapsto> ''sector_1'',
      ''aria_label'' \<mapsto> ''Sector A - Disponible'', ''class_names'' \<mapsto> ''sector-element''] =
      Some ''sector_1''"
    by code_simp
  have d: "spec_cleanup ''sector_1'' = ''sector1''"
    by code_simp
  have e: "extract_sector_id [''id'' \<mapsto> '' VIP 2 '', ''data_status'' \<mapsto> ''available''] =
      Some ''vip_2''"
    by code_simp
  have f: "spec_cleanup '' VIP 2 '' = ''_vip_2_''"
    by code_simp
  from a b c d e f show ?thesis by blast
qed

subsection \<open>Recipients: validation\<close>







subsection \<open>Alert dispatcher: the deduplication gate\<close>

lemma find_not_None: "(find P xs \<noteq> None) = (\<exists>x\<in>set xs. P x)"
  by (induction xs) auto

lemma dedup_iff:
  "should_skip_due_to_deduplication e w ev_id =
     (\<not> db_raises e DedupQuery \<and>
      (\<exists>l \<in> set (sms_logs w). now e - 300000000 < sms_timestamp l \<and> sms_success l \<and>
           sms_message l = ALERT_MESSAGE))"
  unfolding should_skip_due_to_deduplication_def Let_def find_not_None
  by (simp add: timedelta_minutes_def DEDUPLICATION_WINDOW_MINUTES_def)

text \<open>
  C1, as amended. With the transport configured and a lookup of the delivery log
  that does not raise, if the log holds a successful row whose body is the fixed
  alert text and whose timestamp lies in the trailing five minutes,
  \<open>send_change_alert\<close> returns \<open>skipped\<close> with the reason \<open>deduplication\<close>, hands
  nothing to the carrier and logs nothing, whatever the event id passed and whatever
  number the logged row was sent to (a log row names no event at all).
\<close>

theorem dedup_gate:
  assumes "is_configured cl"
    and "\<not> db_raises e DedupQuery"
    and "l \<in> set (sms_logs w)"
    and "sms_success l"
    and "sms_message l = ALERT_MESSAGE"
    and "now e - 5 * 60 * 1000000 < sms_timestamp l"
  shows "send_change_alert e cl ev_id new dry w = (Skipped ''deduplication'', w) \<and>
         success (fst (send_change_alert e cl ev_id new dry w)) \<and>
         skipped (fst (send_change_alert e cl ev_id new dry w)) \<and>
         outbox (snd (send_change_alert e cl ev_id new dry w)) = outbox w \<and>
         sms_logs (snd (send_change_alert e cl ev_id new dry w)) = sms_logs w"
proof -
  from assms(2-6) have "should_skip_due_to_deduplication e w ev_id"
    unfolding dedup_iff by auto
  with assms(1) have "send_change_alert e cl ev_id new dry w = (Skipped ''deduplication'', w)"
    by (simp add: send_change_alert_def)
  then show ?thesis by simp
qed


lemma first_batch_logs:
  "sms_logs (snd (send_change_alert \<lparr>now = 1000000000, db_raises = no_failure\<rparr> (Some carrier) ''pq23'' {|''sector_c''|} False three_phones)) =
     [\<lparr>sms_phone = ''+573001234567'', sms_message = ''Hay cambios en la plataforma'',
       sms_timestamp = 1000000000, sms_success = True, sms_error_message = None\<rparr>,
      \<lparr>sms_phone = ''+573009999999'', sms_message = ''Hay cambios en la plataforma'',
       sms_timestamp = 1000000000, sms_success = False,
       sms_error_message = Some ''Twilio error: unreachable''\<rparr>,
      \<lparr>sms_phone = ''+573007654321'', sms_message = ''Hay cambios en la plataforma'',
       sms_timestamp = 1000000000, sms_success = True, sms_error_message = None\<rparr>]"
  by code_simp

theorem dedup_gate_witness:
  "send_change_alert \<lparr>now = 1299999999, db_raises = no_failure\<rparr> (Some carrier) ''pq24''
     {|''sector_x''|} False
     (snd (send_change_alert \<lparr>now = 1000000000, db_raises = no_failure\<rparr> (Some carrier) ''pq23'' {|''sector_c''|} False three_phones)) =
   (Skipped ''deduplication'',
    snd (send_change_alert \<lparr>now = 1000000000, db_raises = no_failure\<rparr> (Some carrier) ''pq23''
      {|''sector_c''|} False three_phones))"
proof -
  have 1: "is_configured (Some carrier)"
    by (simp add: is_configured_def)
  have 2: "\<not> db_raises \<lparr>now = 1299999999, db_raises = no_failure\<rparr> DedupQuery"
    by (simp add: no_failure_def)
  have 3: "\<lparr>sms_phone = ''+573001234567'', sms_message = ''Hay cambios en la plataforma'', sms_timestamp = 1000000000, sms_success = True, sms_error_message = None\<rparr>
      \<in> set (sms_logs (snd (send_change_alert \<lparr>now = 1000000000, db_raises = no_failure\<rparr> (Some carrier) ''pq23'' {|''sector_c''|} False three_phones)))"
    unfolding first_batch_logs by simp
  have 4: "sms_success \<lparr>sms_phone = ''+573001234567'', sms_message = ''Hay cambios en la plataforma'', sms_timestamp = 1000000000, sms_success = True, sms_error_message = None\<rparr>"
    by simp
  have 5: "sms_message \<lparr>sms_phone = ''+573001234567'', sms_message = ''Hay cambios en la plataforma'', sms_timestamp = 1000000000, sms_success = True, sms_error_message = None\<rparr> = ALERT_MESSAGE"
    by (simp add: ALERT_MESSAGE_def)
  have 6: "now \<lparr>now = 1299999999, db_raises = no_failure\<rparr> - 5 * 60 * 1000000 <
      sms_timestamp \<lparr>sms_phone = ''+573001234567'', sms_message = ''Hay cambios en la plataforma'', sms_timestamp = 1000000000, sms_success = True, sms_error_message = None\<rparr>"
    by simp
  from dedup_gate [OF 1 2 3 4 5 6] show ?thesis by (rule conjunct1)
qed

text \<open>
  C1 as the specification words it fails when the lookup raises:
  \<open>_should_skip_due_to_deduplication\<close> catches the exception and returns \<open>False\<close>.
  In the example the transport is configured and the log holds a successful row
  with the alert text, 300 seconds less one microsecond old; the call is not
  skipped, the carrier is called for the three active recipients and three rows are
  added to the log.
\<close>

theorem dedup_gate_counterexample:
  "is_configured (Some carrier) \<and>
   sms_logs recently_alerted =
     [\<lparr>sms_phone = ''+573001234567'', sms_message = ALERT_MESSAGE,
       sms_timestamp = 1000000000, sms_success = True, sms_error_message = None\<rparr>] \<and>
   now \<lparr>now = 1299999999, db_raises = dedup_lookup_fails\<rparr> -
     timedelta_minutes DEDUPLICATION_WINDOW_MINUTES < 1000000000 \<and>
   \<not> skipped (fst (send_change_alert \<lparr>now = 1299999999, db_raises = dedup_lookup_fails\<rparr> (Some carrier) ''pq24'' {|''sector_x''|} False recently_alerted)) \<and>
   fst (send_change_alert \<lparr>now = 1299999999, db_raises = dedup_lookup_fails\<rparr> (Some carrier) ''pq24'' {|''sector_x''|} False recently_alerted) =
     Batch \<lparr>total_phones = 3, sent_count = 2, failed_count = 1,
            errors = [''+573009999999: Twilio error: unreachable''], dry_run = False\<rparr> \<and>
   outbox (snd (send_change_alert \<lparr>now = 1299999999, db_raises = dedup_lookup_fails\<rparr> (Some carrier) ''pq24'' {|''sector_x''|} False recently_alerted)) =
     [(''+573001234567'', ALERT_MESSAGE), (''+573009999999'', ALERT_MESSAGE),
      (''+573007654321'', ALERT_MESSAGE)] \<and>
   length (sms_logs (snd (send_change_alert \<lparr>now = 1299999999, db_raises = dedup_lookup_fails\<rparr> (Some carrier) ''pq24'' {|''sector_x''|} False recently_alerted))) = 4"
proof -
  have a: "is_configured (Some carrier)"
    by (simp add: is_configured_def)
  have b: "sms_logs recently_alerted =
     [\<lparr>sms_phone = ''+573001234567'', sms_message = ALERT_MESSAGE,
       sms_timestamp = 1000000000, sms_success = True, sms_error_message = None\<rparr>]"
    by (simp add: recently_alerted_def ALERT_MESSAGE_def)
  have c: "now \<lparr>now = 1299999999, db_raises = dedup_lookup_fails\<rparr> -
     timedelta_minutes DEDUPLICATION_WINDOW_MINUTES < 1000000000"
    by (simp add: timedelta_minutes_def DEDUPLICATION_WINDOW_MINUTES_def)
  have d: "fst (send_change_alert \<lparr>now = 1299999999, db_raises = dedup_lookup_fails\<rparr> (Some carrier) ''pq24'' {|''sector_x''|} False recently_alerted) =
     Batch \<lparr>total_phones = 3, sent_count = 2, failed_count = 1,
            errors = [''+573009999999: Twilio error: unreachable''], dry_run = False\<rparr>"
    by code_simp
  have e: "\<not> skipped (fst (send_change_alert \<lparr>now = 1299999999, db_raises = dedup_lookup_fails\<rparr> (Some carrier) ''pq24'' {|''sector_x''|} False recently_alerted))"
    unfolding d by simp
  have f: "outbox (snd (send_change_alert \<lparr>now = 1299999999, db_raises = dedup_lookup_fails\<rparr> (Some carrier) ''pq24'' {|''sector_x''|} False recently_alerted)) =
     [(''+573001234567'', ALERT_MESSAGE), (''+573009999999'', ALERT_MESSAGE),
      (''+573007654321'', ALERT_MESSAGE)]"
    by code_simp
  have g: "length (sms_logs (snd (send_change_alert \<lparr>now = 1299999999, db_raises = dedup_lookup_fails\<rparr> (Some carrier) ''pq24'' {|''sector_x''|} False recently_alerted))) = 4"
    by code_simp
  from a b c d e f g show ?thesis by blast
qed

subsection \<open>Alert dispatcher: the batch summary\<close>

lemma send_sms_ok:
  "fst (fst (send_sms_to_phone e cl ph ALERT_MESSAGE w)) = delivered cl False ph"
  by (simp add: send_sms_to_phone_def delivered_def Let_def split: option.splits outcome.splits)

lemma outbox_log_sms_attempt: "outbox (log_sms_attempt e ph msg ok err w) = outbox w"
  by (simp add: log_sms_attempt_def)

lemma outbox_send_sms_to_phone:
  "outbox (snd (send_sms_to_phone e cl ph msg w)) =
     outbox w @ (if cl = None then [] else [(ph, msg)])"
  by (simp add: send_sms_to_phone_def Let_def outbox_log_sms_attempt
        split: option.splits outcome.splits)

lemma send_loop_summary:
  "send_loop e cl dry phones (b, w) = (b', w') \<Longrightarrow>
     sent_count b' = sent_count b + length (filter (delivered cl dry) phones) \<and>
     failed_count b' =
       failed_count b + length (filter (\<lambda>ph. \<not> delivered cl dry ph) phones) \<and>
     (\<exists>es. errors b' = errors b @ es \<and>
        list_all2 (\<lambda>ph err. \<exists>text. err = ph @ '': '' @ text)
          (filter (\<lambda>ph. \<not> delivered cl dry ph) phones) es) \<and>
     total_phones b' = total_phones b \<and> dry_run b' = dry_run b \<and>
     outbox w' =
       outbox w @ (if dry \<or> cl = None then [] else map (\<lambda>ph. (ph, ALERT_MESSAGE)) phones)"
proof (induction phones arbitrary: b w)
  case Nil
  then show ?case by simp
next
  case (Cons ph rest)
  show ?case
  proof (cases dry)
    case True
    with Cons.prems have
      "send_loop e cl dry rest (b\<lparr>sent_count := sent_count b + 1\<rparr>,
          log_sms_attempt e ph ALERT_MESSAGE True None w) = (b', w')"
      by simp
    from Cons.IH [OF this] True show ?thesis
      by (simp add: delivered_def outbox_log_sms_attempt)
  next
    case False
    obtain ok err w1 where s: "send_sms_to_phone e cl ph ALERT_MESSAGE w = ((ok, err), w1)"
      by (metis prod.exhaust)
    then have ok: "ok = delivered cl False ph" using send_sms_ok [of e cl ph w] by simp
    from s outbox_send_sms_to_phone [of e cl ph ALERT_MESSAGE w]
    have ob: "outbox w1 = outbox w @ (if cl = None then [] else [(ph, ALERT_MESSAGE)])"
      by simp
    show ?thesis
    proof (cases ok)
      case True
      with Cons.prems False s have
        "send_loop e cl dry rest (b\<lparr>sent_count := sent_count b + 1\<rparr>, w1) = (b', w')"
        by simp
      from Cons.IH [OF this] True ok False ob show ?thesis by simp
    next
      case no: False
      with Cons.prems False s have
        "send_loop e cl dry rest
           (b\<lparr>failed_count := failed_count b + 1,
              errors := errors b @ [ph @ '': '' @ format_opt err]\<rparr>, w1) = (b', w')"
        by simp
      from Cons.IH [OF this] obtain es where
        i: "sent_count b' = sent_count b + length (filter (delivered cl dry) rest)"
          "failed_count b' =
             failed_count b + 1 + length (filter (\<lambda>ph. \<not> delivered cl dry ph) rest)"
          "errors b' = (errors b @ [ph @ '': '' @ format_opt err]) @ es"
          "list_all2 (\<lambda>ph err. \<exists>text. err = ph @ '': '' @ text)
             (filter (\<lambda>ph. \<not> delivered cl dry ph) rest) es"
          "total_phones b' = total_phones b" "dry_run b' = dry_run b"
          "outbox w' = outbox w1 @
             (if dry \<or> cl = None then [] else map (\<lambda>ph. (ph, ALERT_MESSAGE)) rest)"
        by auto
      have "list_all2 (\<lambda>ph err. \<exists>text. err = ph @ '': '' @ text)
             (filter (\<lambda>ph. \<not> delivered cl dry ph) (ph # rest))
             ((ph @ '': '' @ format_opt err) # es)"
        using i(4) no ok False by auto
      moreover have "errors b' = errors b @ (ph @ '': '' @ format_opt err) # es"
        using i(3) by simp
      ultimately have "\<exists>es. errors b' = errors b @ es \<and>
        list_all2 (\<lambda>ph err. \<exists>text. err = ph @ '': '' @ text)
          (filter (\<lambda>ph. \<not> delivered cl dry ph) (ph # rest)) es"
        by blast
      with i no ok False ob show ?thesis by simp
    qed
  qed
qed


text \<open>
  C4. When the transport is configured, the deduplication gate does not fire and
  there are \<open>n\<close> active recipients, the call returns the batch summary with
  \<open>success = True\<close>, \<open>sent_count\<close> the number of recipients whose attempt succeeded,
  \<open>failed_count\<close> the number of the others, the two adding up to \<open>n\<close>, and one error
  entry for each failed recipient, in order, each starting with the recipient's
  number; unless the run is a dry run, the carrier is called once for each active
  recipient. \<open>success\<close> is false exactly when the transport is not configured, and
  then the store is returned as it was: nothing is sent or logged.
\<close>

theorem batch_summary:
  "(is_configured cl \<and> \<not> should_skip_due_to_deduplication e w ev_id \<and>
    get_active_phone_numbers e w \<noteq> [] \<longrightarrow>
      (\<exists>b w'. send_change_alert e cl ev_id new dry w = (Batch b, w') \<and>
         success (Batch b) \<and>
         total_phones b = length (get_active_phone_numbers e w) \<and>
         sent_count b = length (filter (delivered cl dry) (get_active_phone_numbers e w)) \<and>
         failed_count b =
           length (filter (\<lambda>ph. \<not> delivered cl dry ph) (get_active_phone_numbers e w)) \<and>
         sent_count b + failed_count b = length (get_active_phone_numbers e w) \<and>
         length (errors b) = failed_count b \<and>
         list_all2 (\<lambda>ph err. \<exists>text. err = ph @ '': '' @ text)
           (filter (\<lambda>ph. \<not> delivered cl dry ph) (get_active_phone_numbers e w))
           (errors b) \<and>
         outbox w' =
           outbox w @
           (if dry then []
            else map (\<lambda>ph. (ph, ALERT_MESSAGE)) (get_active_phone_numbers e w)))) \<and>
   success (fst (send_change_alert e cl ev_id new dry w)) = is_configured cl \<and>
   (\<not> is_configured cl \<longrightarrow>
      send_change_alert e cl ev_id new dry w = (NotSent ''SMS service not configured'', w))"
proof (intro conjI impI)
  assume a: "is_configured cl \<and> \<not> should_skip_due_to_deduplication e w ev_id \<and>
    get_active_phone_numbers e w \<noteq> []"
  define phones where "phones = get_active_phone_numbers e w"
  define b0 where "b0 = \<lparr>total_phones = length phones, sent_count = 0,
                    failed_count = 0, errors = [], dry_run = dry\<rparr>"
  obtain b w' where l: "send_loop e cl dry phones (b0, w) = (b, w')"
    by (metis prod.exhaust)
  from a l have r: "send_change_alert e cl ev_id new dry w = (Batch b, w')"
    by (simp add: send_change_alert_def Let_def phones_def b0_def)
  from a have cl: "cl \<noteq> None" by (simp add: is_configured_def)
  from send_loop_summary [OF l] cl have c:
    "sent_count b = length (filter (delivered cl dry) phones)"
    "failed_count b = length (filter (\<lambda>ph. \<not> delivered cl dry ph) phones)"
    "list_all2 (\<lambda>ph err. \<exists>text. err = ph @ '': '' @ text)
       (filter (\<lambda>ph. \<not> delivered cl dry ph) phones) (errors b)"
    "total_phones b = length phones"
    "outbox w' = outbox w @ (if dry then [] else map (\<lambda>ph. (ph, ALERT_MESSAGE)) phones)"
    by (simp_all add: b0_def)
  from c(3) have len: "length (errors b) =
      length (filter (\<lambda>ph. \<not> delivered cl dry ph) phones)"
    by (simp add: list_all2_lengthD)
  have "length (filter (delivered cl dry) phones) +
        length (filter (\<lambda>ph. \<not> delivered cl dry ph) phones) = length phones"
    by (rule sum_length_filter_compl)
  with r c len show "\<exists>b w'. send_change_alert e cl ev_id new dry w = (Batch b, w') \<and>
         success (Batch b) \<and>
         total_phones b = length (get_active_phone_numbers e w) \<and>
         sent_count b = length (filter (delivered cl dry) (get_active_phone_numbers e w)) \<and>
         failed_count b =
           length (filter (\<lambda>ph. \<not> delivered cl dry ph) (get_active_phone_numbers e w)) \<and>
         sent_count b + failed_count b = length (get_active_phone_numbers e w) \<and>
         length (errors b) = failed_count b \<and>
         list_all2 (\<lambda>ph err. \<exists>text. err = ph @ '': '' @ text)
           (filter (\<lambda>ph. \<not> delivered cl dry ph) (get_active_phone_numbers e w))
           (errors b) \<and>
         outbox w' =
           outbox w @
           (if dry then []
            else map (\<lambda>ph. (ph, ALERT_MESSAGE)) (get_active_phone_numbers e w))"
    unfolding phones_def [symmetric] by simp
next
  show "success (fst (send_change_alert e cl ev_id new dry w)) = is_configured cl"
    by (simp add: send_change_alert_def Let_def split: prod.splits)
next
  assume "\<not> is_configured cl"
  then show "send_change_alert e cl ev_id new dry w = (NotSent ''SMS service not configured'', w)"
    by (simp add: send_change_alert_def)
qed

lemma three_active:
  "get_active_phone_numbers \<lparr>now = 1000000000, db_raises = no_failure\<rparr> three_phones =
     [''+573001234567'', ''+573009999999'', ''+573007654321'']"
  by code_simp

lemma three_not_deduplicated:
  "\<not> should_skip_due_to_deduplication \<lparr>now = 1000000000, db_raises = no_failure\<rparr> three_phones ''pq23''"
  by code_simp

lemma two_delivered:
  "filter (delivered (Some carrier) False)
     [''+573001234567'', ''+573009999999'', ''+573007654321''] =
     [''+573001234567'', ''+573007654321'']"
  by code_simp

lemma one_refused:
  "filter (\<lambda>ph. \<not> delivered (Some carrier) False ph)
     [''+573001234567'', ''+573009999999'', ''+573007654321''] = [''+573009999999'']"
  by code_simp

theorem batch_summary_witness:
  "(\<exists>b w'. send_change_alert \<lparr>now = 1000000000, db_raises = no_failure\<rparr> (Some carrier) ''pq23''
        {|''sector_c''|} False three_phones = (Batch b, w') \<and>
      success (Batch b) \<and> total_phones b = 3 \<and> sent_count b = 2 \<and> failed_count b = 1 \<and>
      length (errors b) = 1) \<and>
   send_change_alert \<lparr>now = 1000000000, db_raises = no_failure\<rparr> None ''pq23''
        {|''sector_c''|} False three_phones =
     (NotSent ''SMS service not configured'', three_phones)"
proof -
  have 1: "is_configured (Some carrier)"
    by (simp add: is_configured_def)
  have 2: "get_active_phone_numbers \<lparr>now = 1000000000, db_raises = no_failure\<rparr> three_phones \<noteq> []"
    unfolding three_active by simp
  note t = batch_summary [of "Some carrier" "\<lparr>now = 1000000000, db_raises = no_failure\<rparr>"
      three_phones "''pq23''" "{|''sector_c''|}" False]
  from t [THEN conjunct1] 1 three_not_deduplicated 2
  obtain b w' where s: "send_change_alert \<lparr>now = 1000000000, db_raises = no_failure\<rparr> (Some carrier) ''pq23''
        {|''sector_c''|} False three_phones = (Batch b, w')"
    and ok: "success (Batch b)"
    and c: "total_phones b =
        length (get_active_phone_numbers \<lparr>now = 1000000000, db_raises = no_failure\<rparr> three_phones)"
      "sent_count b = length (filter (delivered (Some carrier) False)
        (get_active_phone_numbers \<lparr>now = 1000000000, db_raises = no_failure\<rparr> three_phones))"
      "failed_count b = length (filter (\<lambda>ph. \<not> delivered (Some carrier) False ph)
        (get_active_phone_numbers \<lparr>now = 1000000000, db_raises = no_failure\<rparr> three_phones))"
      "length (errors b) = failed_count b"
    by blast
  from c have n: "total_phones b = 3" "sent_count b = 2" "failed_count b = 1"
      "length (errors b) = 1"
    unfolding three_active two_delivered one_refused by simp_all
  from s ok n
  have a: "\<exists>b w'. send_change_alert \<lparr>now = 1000000000, db_raises = no_failure\<rparr> (Some carrier) ''pq23''
        {|''sector_c''|} False three_phones = (Batch b, w') \<and>
      success (Batch b) \<and> total_phones b = 3 \<and> sent_count b = 2 \<and> failed_count b = 1 \<and>
      length (errors b) = 1"
    by blast
  have 3: "\<not> is_configured None"
    by (simp add: is_configured_def)
  from batch_summary [of None "\<lparr>now = 1000000000, db_raises = no_failure\<rparr>"
      three_phones "''pq23''" "{|''sector_c''|}" False, THEN conjunct2, THEN conjunct2] 3
  have b: "send_change_alert \<lparr>now = 1000000000, db_raises = no_failure\<rparr> None ''pq23''
        {|''sector_c''|} False three_phones =
     (NotSent ''SMS service not configured'', three_phones)"
    by blast
  from a b show ?thesis by blast
qed

subsection \<open>Recipients: registration\<close>















subsection \<open>Monitoring cycle\<close>

lemma frame_log_sms_attempt:
  "journal (log_sms_attempt e ph msg ok err w) = journal w \<and>
   snapshots (log_sms_attempt e ph msg ok err w) = snapshots w"
  by (simp add: log_sms_attempt_def)

lemma frame_send_sms_to_phone:
  "journal (snd (send_sms_to_phone e cl ph msg w)) = journal w \<and>
   snapshots (snd (send_sms_to_phone e cl ph msg w)) = snapshots w"
  by (simp add: send_sms_to_phone_def Let_def frame_log_sms_attempt
        split: option.splits outcome.splits)

lemma send_loop_step:
  "\<exists>b1 w1. send_loop e cl dry (ph # rest) (b, w) = send_loop e cl dry rest (b1, w1) \<and>
     journal w1 = journal w \<and> snapshots w1 = snapshots w"
proof (cases dry)
  case True
  then have "send_loop e cl dry (ph # rest) (b, w) =
      send_loop e cl dry rest
        (b\<lparr>sent_count := sent_count b + 1\<rparr>, log_sms_attempt e ph ALERT_MESSAGE True None w)"
    by simp
  with frame_log_sms_attempt [of e ph ALERT_MESSAGE True None w] show ?thesis by blast
next
  case False
  obtain ok err w1 where s: "send_sms_to_phone e cl ph ALERT_MESSAGE w = ((ok, err), w1)"
    by (metis prod.exhaust)
  with frame_send_sms_to_phone [of e cl ph ALERT_MESSAGE w]
  have f: "journal w1 = journal w \<and> snapshots w1 = snapshots w" by simp
  show ?thesis
  proof (cases ok)
    case True
    with False s have "send_loop e cl dry (ph # rest) (b, w) =
        send_loop e cl dry rest (b\<lparr>sent_count := sent_count b + 1\<rparr>, w1)"
      by simp
    with f show ?thesis by blast
  next
    case no: False
    with False s have "send_loop e cl dry (ph # rest) (b, w) =
        send_loop e cl dry rest
          (b\<lparr>failed_count := failed_count b + 1,
             errors := errors b @ [ph @ '': '' @ format_opt err]\<rparr>, w1)"
      by simp
    with f show ?thesis by blast
  qed
qed

lemma frame_send_loop:
  "journal (snd (send_loop e cl dry phones (b, w))) = journal w \<and>
   snapshots (snd (send_loop e cl dry phones (b, w))) = snapshots w"
proof (induction phones arbitrary: b w)
  case Nil
  then show ?case by simp
next
  case (Cons ph rest)
  from send_loop_step [of e cl dry ph rest b w] obtain b1 w1 where
    "send_loop e cl dry (ph # rest) (b, w) = send_loop e cl dry rest (b1, w1)"
    "journal w1 = journal w" "snapshots w1 = snapshots w"
    by blast
  with Cons.IH [of b1 w1] show ?case by simp
qed

lemma frame_send_change_alert:
  "journal (snd (send_change_alert e cl ev_id new dry w)) = journal w \<and>
   snapshots (snd (send_change_alert e cl ev_id new dry w)) = snapshots w"
proof -
  obtain b w' where l: "send_loop e cl dry (get_active_phone_numbers e w)
      (\<lparr>total_phones = length (get_active_phone_numbers e w), sent_count = 0,
        failed_count = 0, errors = [], dry_run = dry\<rparr>, w) = (b, w')"
    by (metis prod.exhaust)
  with frame_send_loop [of e cl dry "get_active_phone_numbers e w" _ w]
  have "journal w' = journal w \<and> snapshots w' = snapshots w" by (metis snd_conv)
  with l show ?thesis by (simp add: send_change_alert_def Let_def)
qed

lemma frame_save_snapshot: "journal (save_snapshot e ev_id s w) = journal w"
  by (simp add: save_snapshot_def)

lemma frame_update_event_timestamp:
  "journal (update_event_timestamp e ev_id w) = journal w \<and>
   snapshots (update_event_timestamp e ev_id w) = snapshots w"
  by (simp add: update_event_timestamp_def)

lemma frame_log_change:
  "journal (log_change e dry ev_id new w) = journal w \<and>
   snapshots (log_change e dry ev_id new w) = snapshots w"
  by (simp add: log_change_def)

lemma frame_mark: "journal (mark s w) = journal w @ [s] \<and> snapshots (mark s w) = snapshots w"
  by (simp add: mark_def)

lemma previous_mark: "get_previous_snapshot e (mark s w) ev_id = get_previous_snapshot e w ev_id"
  by (simp add: get_previous_snapshot_def mark_def)

lemma monitor_extracted:
  "monitor_single_event e cl dry ev_id (Extracted raw) w =
     (let current = normalize_sectors raw;
          w0 = mark Normalize (mark Observe w);
          w1 = mark GetPrevious w0;
          ci = detect_changes (now e) (get_previous_snapshot e w ev_id) current;
          w2 = mark Detect w1;
          w3 = save_snapshot e ev_id current (mark SaveSnapshot w2);
          w4 = update_event_timestamp e ev_id (mark UpdateTimestamp w3);
          result = \<lparr>res_event_id = ev_id, res_success = True, sectors_found = fcard current,
                     changes_detected = has_changes ci, res_new_sectors = new_sectors ci,
                     res_sms_sent = False, res_error = None\<rparr>
      in
      if should_send_alert ci
      then
        (let r = send_change_alert e cl ev_id (new_sectors ci) dry
                   (mark SendAlert (log_change e dry ev_id (new_sectors ci) (mark LogChange w4)))
         in (result\<lparr>res_sms_sent := success (fst r)\<rparr>, snd r))
      else (result, w4))"
  by (simp add: monitor_single_event_def scrape_def Let_def previous_mark split: prod.splits)


lemma journal_alert_branch:
  "journal (snd (send_change_alert e cl ev_id new dry
      (mark SendAlert (log_change e dry ev_id new (mark LogChange
        (update_event_timestamp e ev_id (mark UpdateTimestamp
          (save_snapshot e ev_id cur (mark SaveSnapshot (mark Detect (mark GetPrevious
            (mark Normalize (mark Observe w))))))))))))) =
   journal w @ [Observe, Normalize, GetPrevious, Detect, SaveSnapshot, UpdateTimestamp,
     LogChange, SendAlert]"
  by (simp add: frame_send_change_alert frame_mark frame_log_change
        frame_update_event_timestamp frame_save_snapshot)

text \<open>
  C5, as amended. In a cycle whose observation succeeds and which detects a
  non-empty set of new items, the steps run in this order: observe, normalize, read
  the previous snapshot, detect, persist the new snapshot, update the event's
  last-checked time, persist the change record, dispatch the alert. The change
  record and the alert come only after the snapshot and the timestamp.
\<close>

theorem cycle_order:
  assumes "normalize_sectors raw |-| get_previous_snapshot e w ev_id \<noteq> {||}"
  shows "journal (snd (monitor_single_event e cl dry ev_id (Extracted raw) w)) =
           journal w @ [Observe, Normalize, GetPrevious, Detect, SaveSnapshot,
             UpdateTimestamp, LogChange, SendAlert] \<and>
         (journal w = [] \<longrightarrow>
            before Observe Normalize (journal (snd (monitor_single_event e cl dry ev_id (Extracted raw) w))) \<and>
            before Normalize Detect (journal (snd (monitor_single_event e cl dry ev_id (Extracted raw) w))) \<and>
            before Detect SaveSnapshot (journal (snd (monitor_single_event e cl dry ev_id (Extracted raw) w))) \<and>
            before SaveSnapshot UpdateTimestamp (journal (snd (monitor_single_event e cl dry ev_id (Extracted raw) w))) \<and>
            before UpdateTimestamp LogChange (journal (snd (monitor_single_event e cl dry ev_id (Extracted raw) w))) \<and>
            before LogChange SendAlert (journal (snd (monitor_single_event e cl dry ev_id (Extracted raw) w))))"
proof -
  from assms have a: "should_send_alert
      (detect_changes (now e) (get_previous_snapshot e w ev_id) (normalize_sectors raw))"
    by (simp add: should_send_alert_def detect_changes_def Let_def fcard_pos_iff)
  have j: "journal (snd (monitor_single_event e cl dry ev_id (Extracted raw) w)) =
           journal w @ [Observe, Normalize, GetPrevious, Detect, SaveSnapshot,
             UpdateTimestamp, LogChange, SendAlert]"
    unfolding monitor_extracted Let_def using a by (simp add: journal_alert_branch)
  show ?thesis unfolding j by (simp add: before_def)
qed


lemma sector_a_new:
  "normalize_sectors [sector_a] |-|
     get_previous_snapshot \<lparr>now = 1000000000, db_raises = no_failure\<rparr> three_phones ''pq23'' =
   {|''sector_1''|}"
  by code_simp

theorem cycle_order_witness:
  "journal (snd (monitor_single_event \<lparr>now = 1000000000, db_raises = no_failure\<rparr> (Some carrier) False ''pq23'' (Extracted [sector_a]) three_phones)) =
     [Observe, Normalize, GetPrevious, Detect, SaveSnapshot, UpdateTimestamp, LogChange,
      SendAlert] \<and>
   before SaveSnapshot UpdateTimestamp (journal (snd (monitor_single_event \<lparr>now = 1000000000, db_raises = no_failure\<rparr> (Some carrier) False ''pq23'' (Extracted [sector_a]) three_phones))) \<and>
   before UpdateTimestamp LogChange (journal (snd (monitor_single_event \<lparr>now = 1000000000, db_raises = no_failure\<rparr> (Some carrier) False ''pq23'' (Extracted [sector_a]) three_phones))) \<and>
   before LogChange SendAlert (journal (snd (monitor_single_event \<lparr>now = 1000000000, db_raises = no_failure\<rparr> (Some carrier) False ''pq23'' (Extracted [sector_a]) three_phones)))"
proof -
  have n: "normalize_sectors [sector_a] |-|
     get_previous_snapshot \<lparr>now = 1000000000, db_raises = no_failure\<rparr> three_phones ''pq23'' \<noteq> {||}"
    unfolding sector_a_new by simp
  have j: "journal three_phones = []"
    by (simp add: three_phones_def)
  note t = cycle_order [OF n, of "Some carrier" False]
  from t [THEN conjunct1]
  have a: "journal (snd (monitor_single_event \<lparr>now = 1000000000, db_raises = no_failure\<rparr> (Some carrier) False ''pq23'' (Extracted [sector_a]) three_phones)) =
     [Observe, Normalize, GetPrevious, Detect, SaveSnapshot, UpdateTimestamp, LogChange,
      SendAlert]"
    unfolding j by simp
  from t [THEN conjunct2] j
  have b: "before SaveSnapshot UpdateTimestamp (journal (snd (monitor_single_event \<lparr>now = 1000000000, db_raises = no_failure\<rparr> (Some carrier) False ''pq23'' (Extracted [sector_a]) three_phones))) \<and>
   before UpdateTimestamp LogChange (journal (snd (monitor_single_event \<lparr>now = 1000000000, db_raises = no_failure\<rparr> (Some carrier) False ''pq23'' (Extracted [sector_a]) three_phones))) \<and>
   before LogChange SendAlert (journal (snd (monitor_single_event \<lparr>now = 1000000000, db_raises = no_failure\<rparr> (Some carrier) False ''pq23'' (Extracted [sector_a]) three_phones)))"
    by blast
  from a b show ?thesis by blast
qed

text \<open>
  C5 as the specification words it fails: in the cycle of the example, which detects
  the new item \<open>sector_1\<close>, the snapshot is persisted and the timestamp updated
  before the change record is persisted and the alert dispatched.
\<close>

theorem spec_order_counterexample:
  "normalize_sectors [sector_a] |-|
     get_previous_snapshot \<lparr>now = 1000000000, db_raises = no_failure\<rparr> three_phones ''pq23'' =
     {|''sector_1''|} \<and>
   journal (snd (monitor_single_event \<lparr>now = 1000000000, db_raises = no_failure\<rparr> (Some carrier) False ''pq23'' (Extracted [sector_a]) three_phones)) =
     [Observe, Normalize, GetPrevious, Detect, SaveSnapshot, UpdateTimestamp, LogChange,
      SendAlert] \<and>
   \<not> before SendAlert SaveSnapshot (journal (snd (monitor_single_event \<lparr>now = 1000000000, db_raises = no_failure\<rparr> (Some carrier) False ''pq23'' (Extracted [sector_a]) three_phones))) \<and>
   \<not> spec_order (journal (snd (monitor_single_event \<lparr>now = 1000000000, db_raises = no_failure\<rparr> (Some carrier) False ''pq23'' (Extracted [sector_a]) three_phones)))"
proof -
  have j: "journal (snd (monitor_single_event \<lparr>now = 1000000000, db_raises = no_failure\<rparr> (Some carrier) False ''pq23'' (Extracted [sector_a]) three_phones)) =
     [Observe, Normalize, GetPrevious, Detect, SaveSnapshot, UpdateTimestamp, LogChange,
      SendAlert]"
    by code_simp
  have b: "\<not> before SendAlert SaveSnapshot
     [Observe, Normalize, GetPrevious, Detect, SaveSnapshot, UpdateTimestamp, LogChange,
      SendAlert]"
    by code_simp
  have s: "\<not> spec_order
     [Observe, Normalize, GetPrevious, Detect, SaveSnapshot, UpdateTimestamp, LogChange,
      SendAlert]"
    by code_simp
  from sector_a_new j b s show ?thesis by simp
qed

text \<open>
  C6, as amended. \<open>_save_snapshot\<close> catches the exception of a failed write, so the
  cycle's result does not depend on it: the result is successful exactly when the
  observation succeeded. When the snapshot write fails, the stored snapshots are
  left as they were (the previous snapshot stays the current one) and the cycle of
  a successful observation still reports \<open>success = True\<close> with no error.
\<close>

theorem snapshot_failure_swallowed:
  "res_success (fst (monitor_single_event e cl dry ev_id obs w)) = (\<exists>raw. obs = Extracted raw) \<and>
   (db_raises e SnapshotInsert \<longrightarrow>
      snapshots (snd (monitor_single_event e cl dry ev_id obs w)) = snapshots w) \<and>
   (db_raises e SnapshotInsert \<and> obs = Extracted raw \<longrightarrow>
      res_success (fst (monitor_single_event e cl dry ev_id obs w)) \<and>
      res_error (fst (monitor_single_event e cl dry ev_id obs w)) = None)"
proof -
  have s: "res_success (fst (monitor_single_event e cl dry ev_id obs w)) =
      (\<exists>raw. obs = Extracted raw)"
  proof (cases obs)
    case (Extracted raw)
    then show ?thesis by (simp add: monitor_extracted Let_def)
  qed (simp_all add: monitor_single_event_def scrape_def)
  have k: "db_raises e SnapshotInsert \<longrightarrow>
      snapshots (snd (monitor_single_event e cl dry ev_id obs w)) = snapshots w"
  proof (cases obs)
    case (Extracted raw)
    then show ?thesis
      by (simp add: monitor_extracted Let_def frame_send_change_alert frame_mark
            frame_log_change frame_update_event_timestamp save_snapshot_def)
  qed (simp_all add: monitor_single_event_def scrape_def mark_def)
  have r: "obs = Extracted raw \<longrightarrow>
      res_error (fst (monitor_single_event e cl dry ev_id obs w)) = None"
    by (simp add: monitor_extracted Let_def)
  from s r have t: "db_raises e SnapshotInsert \<and> obs = Extracted raw \<longrightarrow>
      res_success (fst (monitor_single_event e cl dry ev_id obs w)) \<and>
      res_error (fst (monitor_single_event e cl dry ev_id obs w)) = None"
    by auto
  show ?thesis by (intro conjI) (rule s, rule k, rule t)
qed


theorem snapshot_failure_swallowed_witness:
  "db_raises \<lparr>now = 1000000000, db_raises = snapshot_write_fails\<rparr> SnapshotInsert \<and>
   res_success (fst (monitor_single_event \<lparr>now = 1000000000, db_raises = snapshot_write_fails\<rparr> (Some carrier) False ''pq23'' (Extracted [sector_a]) three_phones)) \<and>
   res_error (fst (monitor_single_event \<lparr>now = 1000000000, db_raises = snapshot_write_fails\<rparr> (Some carrier) False ''pq23'' (Extracted [sector_a]) three_phones)) = None \<and>
   snapshots (snd (monitor_single_event \<lparr>now = 1000000000, db_raises = snapshot_write_fails\<rparr> (Some carrier) False ''pq23'' (Extracted [sector_a]) three_phones)) = snapshots three_phones"
proof -
  have f: "db_raises \<lparr>now = 1000000000, db_raises = snapshot_write_fails\<rparr> SnapshotInsert"
    by (simp add: snapshot_write_fails_def)
  note t = snapshot_failure_swallowed [of "\<lparr>now = 1000000000, db_raises = snapshot_write_fails\<rparr>"
      "Some carrier" False "''pq23''" "Extracted [sector_a]" three_phones "[sector_a]"]
  from t [THEN conjunct2, THEN conjunct1] f
  have a: "snapshots (snd (monitor_single_event \<lparr>now = 1000000000, db_raises = snapshot_write_fails\<rparr> (Some carrier) False ''pq23'' (Extracted [sector_a]) three_phones)) = snapshots three_phones"
    by blast
  from t [THEN conjunct2, THEN conjunct2] f
  have b: "res_success (fst (monitor_single_event \<lparr>now = 1000000000, db_raises = snapshot_write_fails\<rparr> (Some carrier) False ''pq23'' (Extracted [sector_a]) three_phones)) \<and>
   res_error (fst (monitor_single_event \<lparr>now = 1000000000, db_raises = snapshot_write_fails\<rparr> (Some carrier) False ''pq23'' (Extracted [sector_a]) three_phones)) = None"
    by blast
  from f a b show ?thesis by blast
qed

text \<open>
  C6 as the specification words it fails: with a snapshot insert that raises, the
  cycle of the example reports success, and no snapshot has been stored.
\<close>

theorem snapshot_failure_counterexample:
  "db_raises \<lparr>now = 1000000000, db_raises = snapshot_write_fails\<rparr> SnapshotInsert \<and>
   res_success (fst (monitor_single_event \<lparr>now = 1000000000, db_raises = snapshot_write_fails\<rparr> (Some carrier) False ''pq23'' (Extracted [sector_a]) three_phones)) \<and>
   snapshots (snd (monitor_single_event \<lparr>now = 1000000000, db_raises = snapshot_write_fails\<rparr> (Some carrier) False ''pq23'' (Extracted [sector_a]) three_phones)) = []"
proof -
  have f: "db_raises \<lparr>now = 1000000000, db_raises = snapshot_write_fails\<rparr> SnapshotInsert"
    by code_simp
  have a: "res_success (fst (monitor_single_event \<lparr>now = 1000000000, db_raises = snapshot_write_fails\<rparr> (Some carrier) False ''pq23'' (Extracted [sector_a]) three_phones))"
    by code_simp
  have b: "snapshots (snd (monitor_single_event \<lparr>now = 1000000000, db_raises = snapshot_write_fails\<rparr> (Some carrier) False ''pq23'' (Extracted [sector_a]) three_phones)) = []"
    by code_simp
  from f a b show ?thesis by blast
qed

end
